theory Spec2Isabelle
  imports Complex_Main
begin

section \<open>Agente 9 (Recover): integrity ledger and prioritised restoration\<close>

text \<open>
  A shallow embedding of \<^verbatim>\<open>src/src/cr_agente_9.py\<close>: the classes
  \<^verbatim>\<open>BackupConfig\<close>, \<^verbatim>\<open>ValidationAgent\<close> and
  \<^verbatim>\<open>OrchestrationAgent\<close>. Every method becomes a function from the state
  before the call to a pair of its outcome and the state after the call; the outcome is
  \<open>Inl x\<close> when the Python raises \<open>x\<close> and \<open>Inr v\<close> when it returns \<open>v\<close>.
  The state is kept on both branches, since what was written or printed before an
  exception stays written.

  Conventions of the model.
  \<^item> Python numbers (the JSON numbers of the registry, the demand figures and the
    float arithmetic of the priority formula) are exact rationals. The constants
    \<^verbatim>\<open>0.1\<close> and \<^verbatim>\<open>1.5\<close> are \<open>1/10\<close> and \<open>3/2\<close>.
  \<^item> \<^verbatim>\<open>hashlib.sha256\<close>, the clock and the demand source are not part of the
    program: they are the fields of an environment record. Reading a file in chunks
    of 4096 bytes and feeding them to the digest is hashing the whole content.
  \<^item> The directory \<^verbatim>\<open>backups\<close> exists and is an ordered listing of named nodes;
    a node is a regular file with its bytes, or a node that \<^verbatim>\<open>open(..., "rb")\<close>
    refuses (a subdirectory, a file without read permission).
  \<^item> The file \<^verbatim>\<open>hash_db.json\<close> is absent, holds a JSON object from names to
    digests, or holds text that \<^verbatim>\<open>json.load\<close> rejects. Writing it succeeds.
  \<^item> \<^verbatim>\<open>production\<close> maps each existing service directory to its files.
    \<^verbatim>\<open>shutil.copy\<close> opens the destination for writing and appends the source
    chunk by chunk; an entry of \<open>copy_fault\<close> for a service makes a copy into its
    directory fail after that many bytes have reached the destination.
  \<^item> The registry \<^verbatim>\<open>critical_services\<close> is a Python dict in insertion order: an
    association list, iterated in order and looked up with \<open>map_of\<close>; its keys are
    distinct in the source.
  \<^item> The date and the timestamp are read from the environment and do not change during
    one call; \<^verbatim>\<open>time.sleep\<close> has no counterpart.
  \<^item> The texts the program returns are the constructors of \<open>msg\<close>; what it prints are
    the constructors of \<open>out\<close>.
\<close>

subsection \<open>Data\<close>

type_synonym bytes = string
type_synonym digest = string

datatype exn = OSError | FileNotFoundError | JSONDecodeError | ZeroDivisionError | KeyError

datatype msg =
    Backup_no_encontrado      \<comment> \<open>"Backup no encontrado"\<close>
  | Integridad_verificada     \<comment> \<open>"Integridad verificada"\<close>
  | Hash_no_coincide          \<comment> \<open>"Hash no coincide"\<close>
  | Nuevo_backup_registrado   \<comment> \<open>"Nuevo backup registrado"\<close>
  | Backup_invalido           \<comment> \<open>"Backup inv(a)lido"\<close>
  | Restauracion_exitosa      \<comment> \<open>"Restauraci(o)n exitosa"\<close>
  | Exc_str exn               \<comment> \<open>str(e) of a caught exception\<close>

datatype node = File bytes | Unreadable

datatype ledger_file = Absent | Json "string \<rightharpoonup> digest" | Undecodable

record service_data =
  priority :: rat
  demand_threshold :: rat

type_synonym registry = "(string \<times> service_data) list"

record config =
  critical_services :: registry

record integrity =
  valid :: bool
  message :: msg
  last_checked :: string

datatype out =
    Val_start                     \<comment> \<open>"[Agente Validacion] Iniciando verificacion de integridad..."\<close>
  | Val_line bool string msg      \<comment> \<open>"  {status} {backup}: {message}"\<close>
  | Val_done                      \<comment> \<open>"[Agente Validacion] Verificacion completada"\<close>
  | Rest_start string bool        \<comment> \<open>"[Orquestador] Iniciando restauracion de {service} (parcial|completa)"\<close>
  | Orq_eval                      \<comment> \<open>"[Agente Orquestacion] Evaluando prioridades..."\<close>
  | Orq_order "string list"       \<comment> \<open>"Orden de prioridad: ..."\<close>
  | Orq_done                      \<comment> \<open>"[Agente Orquestacion] Proceso de restauracion completado"\<close>

record env =
  sha256 :: "bytes \<Rightarrow> digest"
  today :: string                      \<comment> \<open>datetime.now().strftime('%Y%m%d')\<close>
  now :: string                        \<comment> \<open>datetime.now().isoformat()\<close>
  demand_source :: "string \<rightharpoonup> rat"   \<comment> \<open>what evaluate_demands samples\<close>

record state =
  backups :: "(string \<times> node) list"
  hash_db :: ledger_file
  production :: "string \<rightharpoonup> (string \<rightharpoonup> bytes)"
  copy_fault :: "string \<rightharpoonup> nat"
  integrity_status :: "string \<rightharpoonup> integrity"
  current_demands :: "string \<rightharpoonup> rat"
  stdout :: "out list"

subsection \<open>BackupConfig\<close>

text \<open>
  \<^verbatim>\<open>load_critical_services\<close>: the argument is the content of
  \<^verbatim>\<open>critical_services.json\<close>, \<open>None\<close> when the file is not found.
\<close>

definition default_services :: registry where
  "default_services =
     [(''servicio_db'', \<lparr>priority = 1, demand_threshold = 100\<rparr>),
      (''servicio_api'', \<lparr>priority = 2, demand_threshold = 80\<rparr>),
      (''servicio_web'', \<lparr>priority = 3, demand_threshold = 50\<rparr>)]"

definition load_critical_services :: "registry option \<Rightarrow> registry" where
  "load_critical_services f = (case f of Some r \<Rightarrow> r | None \<Rightarrow> default_services)"

subsection \<open>ValidationAgent\<close>

definition path_exists :: "state \<Rightarrow> string \<Rightarrow> bool" where
  "path_exists s backup_file = (map_of (backups s) backup_file \<noteq> None)"

definition calculate_hash :: "env \<Rightarrow> state \<Rightarrow> string \<Rightarrow> exn + digest" where
  "calculate_hash e s backup_file =
     (case map_of (backups s) backup_file of
        None \<Rightarrow> Inl FileNotFoundError
      | Some Unreadable \<Rightarrow> Inl OSError
      | Some (File b) \<Rightarrow> Inr (sha256 e b))"

text \<open>The \<^verbatim>\<open>try\<close> around reading the ledger: only \<^verbatim>\<open>FileNotFoundError\<close> is caught.\<close>

definition load_known_hashes :: "state \<Rightarrow> exn + (string \<rightharpoonup> digest)" where
  "load_known_hashes s =
     (case hash_db s of
        Absent \<Rightarrow> Inr Map.empty
      | Json m \<Rightarrow> Inr m
      | Undecodable \<Rightarrow> Inl JSONDecodeError)"

definition verify_backup :: "env \<Rightarrow> string \<Rightarrow> state \<Rightarrow> (exn + bool \<times> msg) \<times> state" where
  "verify_backup e backup_file s =
     (if \<not> path_exists s backup_file then (Inr (False, Backup_no_encontrado), s)
      else
        case calculate_hash e s backup_file of
          Inl x \<Rightarrow> (Inl x, s)
        | Inr current_hash \<Rightarrow>
            (case load_known_hashes s of
               Inl x \<Rightarrow> (Inl x, s)
             | Inr known_hashes \<Rightarrow>
                 (case known_hashes backup_file of
                    Some h \<Rightarrow>
                      if h = current_hash then (Inr (True, Integridad_verificada), s)
                      else (Inr (False, Hash_no_coincide), s)
                  | None \<Rightarrow>
                      (Inr (True, Nuevo_backup_registrado),
                       s\<lparr>hash_db := Json (known_hashes(backup_file \<mapsto> current_hash))\<rparr>))))"

fun validation_loop :: "env \<Rightarrow> string list \<Rightarrow> state \<Rightarrow> (exn + unit) \<times> state" where
  "validation_loop e [] s = (Inr (), s)"
| "validation_loop e (backup # rest) s =
     (case verify_backup e backup s of
        (Inl x, s1) \<Rightarrow> (Inl x, s1)
      | (Inr (is_valid, m), s1) \<Rightarrow>
          validation_loop e rest
            (s1\<lparr>integrity_status :=
                   (integrity_status s1)
                     (backup \<mapsto> \<lparr>valid = is_valid, message = m, last_checked = now e\<rparr>),
                 stdout := stdout s1 @ [Val_line is_valid backup m]\<rparr>))"

definition full_validation_cycle ::
  "env \<Rightarrow> state \<Rightarrow> (exn + (string \<rightharpoonup> integrity)) \<times> state" where
  "full_validation_cycle e s =
     (let s0 = s\<lparr>stdout := stdout s @ [Val_start]\<rparr> in
      case validation_loop e (map fst (backups s0)) s0 of
        (Inl x, s1) \<Rightarrow> (Inl x, s1)
      | (Inr _, s1) \<Rightarrow>
          (let s2 = s1\<lparr>stdout := stdout s1 @ [Val_done]\<rparr>
           in (Inr (integrity_status s2), s2)))"

subsection \<open>OrchestrationAgent\<close>

text \<open>The sample hard-coded in \<^verbatim>\<open>evaluate_demands\<close> ("simulado").\<close>

definition simulated_demands :: "string \<rightharpoonup> rat" where
  "simulated_demands =
     [''servicio_db'' \<mapsto> 150, ''servicio_api'' \<mapsto> 65, ''servicio_web'' \<mapsto> 30]"

definition evaluate_demands :: "env \<Rightarrow> state \<Rightarrow> (string \<rightharpoonup> rat) \<times> state" where
  "evaluate_demands e s = (demand_source e, s\<lparr>current_demands := demand_source e\<rparr>)"

text \<open>\<^verbatim>\<open>d.get(service, 0)\<close>\<close>

definition get0 :: "(string \<rightharpoonup> rat) \<Rightarrow> string \<Rightarrow> rat" where
  "get0 d service = (case d service of None \<Rightarrow> 0 | Some v \<Rightarrow> v)"

text \<open>
  One pass of the first loop of \<^verbatim>\<open>prioritize_services\<close>: the priority of a
  service, or \<^verbatim>\<open>ZeroDivisionError\<close> from the division by its threshold.
\<close>

definition effective_priority :: "(string \<rightharpoonup> rat) \<Rightarrow> string \<Rightarrow> service_data \<Rightarrow> exn + rat" where
  "effective_priority demands service data =
     (let current_demand = get0 demands service in
      if demand_threshold data = 0 then Inl ZeroDivisionError
      else
        let demand_ratio = current_demand / demand_threshold data
        in Inr (priority data * (1 / max (1 / 10) demand_ratio)))"

fun priority_list :: "(string \<rightharpoonup> rat) \<Rightarrow> registry \<Rightarrow> exn + (rat \<times> string) list" where
  "priority_list demands [] = Inr []"
| "priority_list demands ((service, data) # rest) =
     (case effective_priority demands service data of
        Inl x \<Rightarrow> Inl x
      | Inr p \<Rightarrow>
          (case priority_list demands rest of
             Inl x \<Rightarrow> Inl x
           | Inr pl \<Rightarrow> Inr ((p, service) # pl)))"

definition prioritize_services :: "env \<Rightarrow> config \<Rightarrow> state \<Rightarrow> (exn + string list) \<times> state" where
  "prioritize_services e cfg s =
     (case evaluate_demands e s of
        (demands, s1) \<Rightarrow>
          (case priority_list demands (critical_services cfg) of
             Inl x \<Rightarrow> (Inl x, s1)
           | Inr pl \<Rightarrow> (Inr (map snd (sort_key fst pl)), s1)))"

text \<open>
  \<^verbatim>\<open>shutil.copy(source, os.path.join(target, dest))\<close>: the destination is opened for
  writing (truncated) and receives the source; with a copy fault of \<open>k\<close> for the service
  it holds the first \<open>k\<close> bytes when the exception is raised.
\<close>

definition shutil_copy :: "string \<Rightarrow> string \<Rightarrow> string \<Rightarrow> state \<Rightarrow> (exn + unit) \<times> state" where
  "shutil_copy backup_file service dest s =
     (case map_of (backups s) backup_file of
        None \<Rightarrow> (Inl FileNotFoundError, s)
      | Some Unreadable \<Rightarrow> (Inl OSError, s)
      | Some (File b) \<Rightarrow>
          (case production s service of
             None \<Rightarrow> (Inl FileNotFoundError, s)
           | Some files \<Rightarrow>
               (case copy_fault s service of
                  None \<Rightarrow>
                    (Inr (), s\<lparr>production := (production s)(service \<mapsto> files(dest \<mapsto> b))\<rparr>)
                | Some k \<Rightarrow>
                    (Inl OSError,
                     s\<lparr>production := (production s)(service \<mapsto> files(dest \<mapsto> take k b))\<rparr>))))"

text \<open>\<^verbatim>\<open>if not os.path.exists(target): os.makedirs(target)\<close>\<close>

definition makedirs_if_missing :: "string \<Rightarrow> state \<Rightarrow> state" where
  "makedirs_if_missing service s =
     (if production s service = None
      then s\<lparr>production := (production s)(service \<mapsto> Map.empty)\<rparr> else s)"

definition restore_service ::
  "env \<Rightarrow> string \<Rightarrow> string \<Rightarrow> bool \<Rightarrow> state \<Rightarrow> (exn + bool \<times> msg) \<times> state" where
  "restore_service e service backup_file partial s =
     (let s0 = s\<lparr>stdout := stdout s @ [Rest_start service partial]\<rparr> in
      case verify_backup e backup_file s0 of
        (Inl x, s1) \<Rightarrow> (Inl x, s1)
      | (Inr (is_valid, _), s1) \<Rightarrow>
          if \<not> is_valid then (Inr (False, Backup_invalido), s1)
          else
            (let s2 = makedirs_if_missing service s1;
                 dest = (if partial then ''partial_restore'' else ''full_restore'')
             in case shutil_copy backup_file service dest s2 of
                  (Inl x, s3) \<Rightarrow> (Inr (False, Exc_str x), s3)
                | (Inr _, s3) \<Rightarrow> (Inr (True, Restauracion_exitosa), s3)))"

definition backup_name :: "env \<Rightarrow> string \<Rightarrow> string" where
  "backup_name e service = service @ ''_backup_'' @ today e @ ''.bak''"

fun restoration_loop ::
  "env \<Rightarrow> config \<Rightarrow> string list \<Rightarrow> (string \<rightharpoonup> bool \<times> msg) \<Rightarrow> state
     \<Rightarrow> (exn + (string \<rightharpoonup> bool \<times> msg)) \<times> state" where
  "restoration_loop e cfg [] results s = (Inr results, s)"
| "restoration_loop e cfg (service # rest) results s =
     (let backup_file = backup_name e service;
          current_demand = get0 (current_demands s) service
      in case map_of (critical_services cfg) service of
           None \<Rightarrow> (Inl KeyError, s)
         | Some data \<Rightarrow>
             (let threshold = demand_threshold data;
                  partial = (current_demand < threshold * (3 / 2))
              in case restore_service e service backup_file partial s of
                   (Inl x, s1) \<Rightarrow> (Inl x, s1)
                 | (Inr (success, m), s1) \<Rightarrow>
                     (let results1 = results(service \<mapsto> (success, m))
                      in if success \<and> current_demand < threshold then (Inr results1, s1)
                         else restoration_loop e cfg rest results1 s1)))"

definition orchestrate_restorations ::
  "env \<Rightarrow> config \<Rightarrow> state \<Rightarrow> (exn + (string \<rightharpoonup> bool \<times> msg)) \<times> state" where
  "orchestrate_restorations e cfg s =
     (let s0 = s\<lparr>stdout := stdout s @ [Orq_eval]\<rparr> in
      case prioritize_services e cfg s0 of
        (Inl x, s1) \<Rightarrow> (Inl x, s1)
      | (Inr prioritized, s1) \<Rightarrow>
          (let s2 = s1\<lparr>stdout := stdout s1 @ [Orq_order prioritized]\<rparr> in
           case restoration_loop e cfg prioritized Map.empty s2 of
             (Inl x, s3) \<Rightarrow> (Inl x, s3)
           | (Inr results, s3) \<Rightarrow>
               (Inr results, s3\<lparr>stdout := stdout s3 @ [Orq_done]\<rparr>)))"

subsection \<open>Repeated verification and example inputs\<close>

text \<open>\<open>n\<close> successive calls of \<^verbatim>\<open>verify_backup\<close> on one artifact, with their outcomes.\<close>

fun verify_repeat :: "env \<Rightarrow> string \<Rightarrow> nat \<Rightarrow> state \<Rightarrow> (exn + bool \<times> msg) list \<times> state" where
  "verify_repeat e a 0 s = ([], s)"
| "verify_repeat e a (Suc n) s =
     (case verify_backup e a s of
        (r, s1) \<Rightarrow> (case verify_repeat e a n s1 of (rs, s2) \<Rightarrow> (r # rs, s2)))"

text \<open>
  An environment and a state for concrete runs: a stand-in digest that prefixes the
  content, a fixed date, the simulated demand sample, and an empty file system.
\<close>

definition example_env :: env where
  "example_env =
     \<lparr>sha256 = (\<lambda>b. ''sha:'' @ b), today = ''20240101'', now = ''2024-01-01T00:00:00'',
      demand_source = simulated_demands\<rparr>"

definition empty_state :: state where
  "empty_state =
     \<lparr>backups = [], hash_db = Absent, production = Map.empty, copy_fault = Map.empty,
      integrity_status = Map.empty, current_demands = Map.empty, stdout = []\<rparr>"

section \<open>Properties of the integrity ledger\<close>

text \<open>
  Claim C2. For an artifact that already has a ledger entry, when the digest of its current
  bytes differs from the stored one, \<^verbatim>\<open>verify_backup\<close> returns
  \<^verbatim>\<open>(False, "Hash no coincide")\<close> (the Mismatch outcome) and the state after the call
  is the state before it: the ledger keeps the stored digest.
\<close>

theorem verify_backup_mismatch_keeps_entry:
  assumes "map_of (backups s) a = Some (File b)"
      and "hash_db s = Json m"
      and "m a = Some d"
      and "sha256 e b \<noteq> d"
  shows "verify_backup e a s = (Inr (False, Hash_no_coincide), s)
         \<and> hash_db (snd (verify_backup e a s)) = Json m"
  using assms
  by (simp add: verify_backup_def path_exists_def calculate_hash_def load_known_hashes_def)

theorem verify_backup_mismatch_keeps_entry_witness:
  "verify_backup example_env ''a.bak''
     (empty_state\<lparr>backups := [(''a.bak'', File ''tampered'')],
                  hash_db := Json [''a.bak'' \<mapsto> ''sha:original'']\<rparr>)
   = (Inr (False, Hash_no_coincide),
      empty_state\<lparr>backups := [(''a.bak'', File ''tampered'')],
                  hash_db := Json [''a.bak'' \<mapsto> ''sha:original'']\<rparr>)"
  using verify_backup_mismatch_keeps_entry
    [of "empty_state\<lparr>backups := [(''a.bak'', File ''tampered'')],
                  hash_db := Json [''a.bak'' \<mapsto> ''sha:original'']\<rparr>"
        "''a.bak''" "''tampered''" "[''a.bak'' \<mapsto> ''sha:original'']" "''sha:original''" example_env]
  by (simp add: example_env_def empty_state_def)

text \<open>
  Claim C9. When the ledger file is absent and the artifact exists in the backup store,
  \<^verbatim>\<open>verify_backup\<close> takes the ledger as empty, writes a ledger that holds the
  artifact's current digest and returns \<^verbatim>\<open>(True, "Nuevo backup registrado")\<close>
  (the Registered outcome): the missing ledger is no error.
\<close>

theorem verify_backup_absent_ledger_registers:
  assumes "map_of (backups s) a = Some (File b)"
      and "hash_db s = Absent"
  shows "verify_backup e a s =
           (Inr (True, Nuevo_backup_registrado), s\<lparr>hash_db := Json [a \<mapsto> sha256 e b]\<rparr>)"
  using assms
  by (simp add: verify_backup_def path_exists_def calculate_hash_def load_known_hashes_def)

theorem verify_backup_absent_ledger_registers_witness:
  "verify_backup example_env ''a.bak'' (empty_state\<lparr>backups := [(''a.bak'', File ''data'')]\<rparr>)
   = (Inr (True, Nuevo_backup_registrado),
      empty_state\<lparr>backups := [(''a.bak'', File ''data'')],
                  hash_db := Json [''a.bak'' \<mapsto> ''sha:data'']\<rparr>)"
  using verify_backup_absent_ledger_registers
    [of "empty_state\<lparr>backups := [(''a.bak'', File ''data'')]\<rparr>" "''a.bak''" "''data''" example_env]
  by (simp add: example_env_def empty_state_def)

text \<open>
  A known digest that equals the current one: verification succeeds and changes nothing,
  however often it is repeated.
\<close>

lemma verify_backup_known_equal:
  assumes "map_of (backups s) a = Some (File b)"
      and "hash_db s = Json m"
      and "m a = Some (sha256 e b)"
  shows "verify_backup e a s = (Inr (True, Integridad_verificada), s)"
  using assms
  by (simp add: verify_backup_def path_exists_def calculate_hash_def load_known_hashes_def)

lemma verify_repeat_known_equal:
  assumes "map_of (backups s) a = Some (File b)"
      and "hash_db s = Json m"
      and "m a = Some (sha256 e b)"
  shows "verify_repeat e a n s = (replicate n (Inr (True, Integridad_verificada)), s)"
  by (induction n) (simp_all add: verify_backup_known_equal [OF assms])

text \<open>
  Claim C7. For an artifact with no ledger entry, the first \<^verbatim>\<open>verify_backup\<close>
  stores its digest in the ledger and returns \<^verbatim>\<open>(True, "Nuevo backup registrado")\<close>
  (Registered); every one of \<open>n\<close> further calls on the unchanged bytes returns
  \<^verbatim>\<open>(True, "Integridad verificada")\<close> (Verified) and leaves the state as it is.
\<close>

theorem verify_backup_register_then_verified:
  assumes "map_of (backups s) a = Some (File b)"
      and "load_known_hashes s = Inr m"
      and "m a = None"
  shows "verify_backup e a s =
           (Inr (True, Nuevo_backup_registrado), s\<lparr>hash_db := Json (m(a \<mapsto> sha256 e b))\<rparr>)
         \<and> verify_repeat e a n (snd (verify_backup e a s)) =
             (replicate n (Inr (True, Integridad_verificada)), snd (verify_backup e a s))"
proof -
  let ?s1 = "s\<lparr>hash_db := Json (m(a \<mapsto> sha256 e b))\<rparr>"
  have first: "verify_backup e a s = (Inr (True, Nuevo_backup_registrado), ?s1)"
    using assms
    by (simp add: verify_backup_def path_exists_def calculate_hash_def)
  have "verify_repeat e a n ?s1 = (replicate n (Inr (True, Integridad_verificada)), ?s1)"
    by (rule verify_repeat_known_equal [where b = b and m = "m(a \<mapsto> sha256 e b)"])
       (simp_all add: assms(1))
  with first show ?thesis by simp
qed

theorem verify_backup_register_then_verified_witness:
  "fst (verify_backup example_env ''a.bak''
          (empty_state\<lparr>backups := [(''a.bak'', File ''data'')],
                       hash_db := Json [''b.bak'' \<mapsto> ''sha:x'']\<rparr>))
     = Inr (True, Nuevo_backup_registrado)
   \<and> fst (verify_repeat example_env ''a.bak'' 3
            (snd (verify_backup example_env ''a.bak''
                    (empty_state\<lparr>backups := [(''a.bak'', File ''data'')],
                                 hash_db := Json [''b.bak'' \<mapsto> ''sha:x'']\<rparr>))))
     = replicate 3 (Inr (True, Integridad_verificada))"
proof -
  let ?s = "empty_state\<lparr>backups := [(''a.bak'', File ''data'')],
                        hash_db := Json [''b.bak'' \<mapsto> ''sha:x'']\<rparr>"
  have h1: "map_of (backups ?s) ''a.bak'' = Some (File ''data'')" by simp
  have h2: "load_known_hashes ?s = Inr [''b.bak'' \<mapsto> ''sha:x'']"
    by (simp add: load_known_hashes_def)
  have h3: "[''b.bak'' \<mapsto> ''sha:x''] ''a.bak'' = None" by simp
  show ?thesis
    using verify_backup_register_then_verified [OF h1 h2 h3, of example_env 3]
    by (metis fst_conv)
qed

subsection \<open>The validation cycle\<close>

text \<open>
  \<^verbatim>\<open>verify_backup\<close> on a readable file returns, and leaves the listing, the status
  table and the output alone; on a node that cannot be read it raises.
\<close>

lemma verify_backup_file_ok:
  assumes "map_of (backups s) n = Some (File b)"
      and "hash_db s \<noteq> Undecodable"
  shows "\<exists>v m s'. verify_backup e n s = (Inr (v, m), s') \<and> backups s' = backups s
           \<and> hash_db s' \<noteq> Undecodable \<and> integrity_status s' = integrity_status s
           \<and> stdout s' = stdout s"
  using assms
  by (cases "hash_db s")
     (auto simp add: verify_backup_def path_exists_def calculate_hash_def load_known_hashes_def
           split: option.splits)

lemma verify_backup_unreadable:
  assumes "map_of (backups s) n = Some Unreadable"
  shows "verify_backup e n s = (Inl OSError, s)"
  using assms
  by (simp add: verify_backup_def path_exists_def calculate_hash_def)

lemma validation_loop_ok:
  assumes "\<forall>n \<in> set names. \<exists>b. map_of (backups s) n = Some (File b)"
      and "hash_db s \<noteq> Undecodable"
  shows "\<exists>s'. validation_loop e names s = (Inr (), s') \<and> backups s' = backups s
           \<and> hash_db s' \<noteq> Undecodable
           \<and> (\<forall>n \<in> set names. integrity_status s' n \<noteq> None)
           \<and> (\<forall>n. n \<notin> set names \<longrightarrow> integrity_status s' n = integrity_status s n)"
  using assms
proof (induction names arbitrary: s)
  case Nil
  then show ?case by simp
next
  case (Cons a names)
  from Cons.prems obtain b where b: "map_of (backups s) a = Some (File b)" by auto
  from verify_backup_file_ok [OF b Cons.prems(2), of e]
  obtain v m s1 where v: "verify_backup e a s = (Inr (v, m), s1)"
    and s1: "backups s1 = backups s" "hash_db s1 \<noteq> Undecodable"
            "integrity_status s1 = integrity_status s"
    by blast
  let ?s2 = "s1\<lparr>integrity_status :=
                   (integrity_status s1)
                     (a \<mapsto> \<lparr>valid = v, message = m, last_checked = now e\<rparr>),
                 stdout := stdout s1 @ [Val_line v a m]\<rparr>"
  have p1: "\<forall>n \<in> set names. \<exists>b. map_of (backups ?s2) n = Some (File b)"
    using Cons.prems(1) s1(1) by simp
  have p2: "hash_db ?s2 \<noteq> Undecodable" using s1(2) by simp
  from Cons.IH [OF p1 p2]
  obtain s' where r: "validation_loop e names ?s2 = (Inr (), s')"
    and s': "backups s' = backups ?s2" "hash_db s' \<noteq> Undecodable"
            "\<forall>n \<in> set names. integrity_status s' n \<noteq> None"
            "\<forall>n. n \<notin> set names \<longrightarrow> integrity_status s' n = integrity_status ?s2 n"
    by blast
  have "validation_loop e (a # names) s = (Inr (), s')"
    using v r by simp
  moreover have "backups s' = backups s" using s'(1) s1(1) by simp
  moreover have "\<forall>n \<in> set (a # names). integrity_status s' n \<noteq> None"
  proof
    fix n assume "n \<in> set (a # names)"
    then show "integrity_status s' n \<noteq> None"
      using s'(3) s'(4) by (cases "n \<in> set names") auto
  qed
  moreover have "\<forall>n. n \<notin> set (a # names) \<longrightarrow> integrity_status s' n = integrity_status s n"
    using s'(4) s1(3) by simp
  ultimately show ?case using s'(2) by blast
qed

lemma validation_loop_abort:
  assumes "\<forall>n \<in> set pre. \<exists>b. map_of (backups s) n = Some (File b)"
      and "map_of (backups s) a = Some Unreadable"
      and "hash_db s \<noteq> Undecodable"
  shows "\<exists>s'. validation_loop e (pre @ a # post) s = (Inl OSError, s')
           \<and> (\<forall>n \<in> set pre. integrity_status s' n \<noteq> None)
           \<and> (\<forall>n. n \<notin> set pre \<longrightarrow> integrity_status s' n = integrity_status s n)"
  using assms
proof (induction pre arbitrary: s)
  case Nil
  then show ?case by (simp add: verify_backup_unreadable)
next
  case (Cons x pre)
  from Cons.prems obtain b where b: "map_of (backups s) x = Some (File b)" by auto
  from verify_backup_file_ok [OF b Cons.prems(3), of e]
  obtain v m s1 where v: "verify_backup e x s = (Inr (v, m), s1)"
    and s1: "backups s1 = backups s" "hash_db s1 \<noteq> Undecodable"
            "integrity_status s1 = integrity_status s"
    by blast
  let ?s2 = "s1\<lparr>integrity_status :=
                   (integrity_status s1)
                     (x \<mapsto> \<lparr>valid = v, message = m, last_checked = now e\<rparr>),
                 stdout := stdout s1 @ [Val_line v x m]\<rparr>"
  have p1: "\<forall>n \<in> set pre. \<exists>b. map_of (backups ?s2) n = Some (File b)"
    using Cons.prems(1) s1(1) by simp
  have p2: "map_of (backups ?s2) a = Some Unreadable" using Cons.prems(2) s1(1) by simp
  have p3: "hash_db ?s2 \<noteq> Undecodable" using s1(2) by simp
  from Cons.IH [OF p1 p2 p3]
  obtain s' where r: "validation_loop e (pre @ a # post) ?s2 = (Inl OSError, s')"
    and s': "\<forall>n \<in> set pre. integrity_status s' n \<noteq> None"
            "\<forall>n. n \<notin> set pre \<longrightarrow> integrity_status s' n = integrity_status ?s2 n"
    by blast
  have "validation_loop e ((x # pre) @ a # post) s = (Inl OSError, s')"
    using v r by simp
  moreover have "\<forall>n \<in> set (x # pre). integrity_status s' n \<noteq> None"
  proof
    fix n assume "n \<in> set (x # pre)"
    then show "integrity_status s' n \<noteq> None"
      using s'(1) s'(2) by (cases "n \<in> set pre") auto
  qed
  moreover have "\<forall>n. n \<notin> set (x # pre) \<longrightarrow> integrity_status s' n = integrity_status s n"
    using s'(2) s1(3) by simp
  ultimately show ?case by blast
qed

text \<open>
  Claim C3 (as amended). \<^verbatim>\<open>full_validation_cycle\<close> has no handler around
  \<^verbatim>\<open>verify_backup\<close>. With \<open>pre\<close> the readable artifacts at the head of the
  listing and \<open>rest\<close> what follows them: when \<open>rest\<close> is empty the cycle returns the
  status table, which has an entry for every artifact; when \<open>rest\<close> starts with an
  artifact whose read raises, the cycle ends with that exception, the artifacts of \<open>pre\<close>
  have their entry, and no other entry of the table has changed: neither the failing
  artifact nor any artifact after it is recorded.
\<close>

theorem full_validation_cycle_read_failure_propagates:
  assumes "distinct (map fst (backups s))"
      and "hash_db s \<noteq> Undecodable"
      and "backups s = pre @ rest"
      and "\<forall>nd \<in> snd ` set pre. nd \<noteq> Unreadable"
      and "rest = [] \<or> (\<exists>a post. rest = (a, Unreadable) # post)"
  shows "\<exists>s'. full_validation_cycle e s =
                 (if rest = [] then Inr (integrity_status s') else Inl OSError, s')
              \<and> (\<forall>n \<in> fst ` set pre. integrity_status s' n \<noteq> None)
              \<and> (\<forall>n. n \<notin> fst ` set pre \<longrightarrow> integrity_status s' n = integrity_status s n)"
proof -
  let ?s0 = "s\<lparr>stdout := stdout s @ [Val_start]\<rparr>"
  have files: "\<forall>n \<in> set (map fst pre). \<exists>b. map_of (backups ?s0) n = Some (File b)"
  proof
    fix n assume "n \<in> set (map fst pre)"
    then obtain nd where m: "(n, nd) \<in> set pre" by auto
    then have "(n, nd) \<in> set (backups s)" using assms(3) by simp
    with assms(1) have "map_of (backups s) n = Some nd" by simp
    moreover from m assms(4) have "nd \<noteq> Unreadable" by force
    ultimately show "\<exists>b. map_of (backups ?s0) n = Some (File b)"
      by (cases nd) simp_all
  qed
  have led: "hash_db ?s0 \<noteq> Undecodable" using assms(2) by simp
  from assms(5) show ?thesis
  proof
    assume e: "rest = []"
    from validation_loop_ok [OF files led, of e]
    obtain s1 where r: "validation_loop e (map fst pre) ?s0 = (Inr (), s1)"
      and s1: "\<forall>n \<in> set (map fst pre). integrity_status s1 n \<noteq> None"
              "\<forall>n. n \<notin> set (map fst pre) \<longrightarrow> integrity_status s1 n = integrity_status ?s0 n"
      by blast
    let ?s2 = "s1\<lparr>stdout := stdout s1 @ [Val_done]\<rparr>"
    have "full_validation_cycle e s = (Inr (integrity_status ?s2), ?s2)"
      using r e assms(3) by (simp add: full_validation_cycle_def)
    moreover have "\<forall>n \<in> fst ` set pre. integrity_status ?s2 n \<noteq> None"
      using s1(1) by simp
    moreover have "\<forall>n. n \<notin> fst ` set pre \<longrightarrow> integrity_status ?s2 n = integrity_status s n"
      using s1(2) by simp
    ultimately show ?thesis using e by (intro exI [of _ ?s2]) simp
  next
    assume "\<exists>a post. rest = (a, Unreadable) # post"
    then obtain a post where ne: "rest = (a, Unreadable) # post" by blast
    have "(a, Unreadable) \<in> set (backups s)" using assms(3) ne by simp
    with assms(1) have a: "map_of (backups ?s0) a = Some Unreadable" by simp
    from validation_loop_abort [OF files a led, of e "map fst post"]
    obtain s1 where
      r: "validation_loop e (map fst pre @ a # map fst post) ?s0 = (Inl OSError, s1)"
      and s1: "\<forall>n \<in> set (map fst pre). integrity_status s1 n \<noteq> None"
              "\<forall>n. n \<notin> set (map fst pre) \<longrightarrow> integrity_status s1 n = integrity_status ?s0 n"
      by blast
    have "full_validation_cycle e s = (Inl OSError, s1)"
      using r ne assms(3) by (simp add: full_validation_cycle_def)
    moreover have "\<forall>n \<in> fst ` set pre. integrity_status s1 n \<noteq> None"
      using s1(1) by simp
    moreover have "\<forall>n. n \<notin> fst ` set pre \<longrightarrow> integrity_status s1 n = integrity_status s n"
      using s1(2) by simp
    ultimately show ?thesis using ne by (intro exI [of _ s1]) simp
  qed
qed

theorem full_validation_cycle_read_failure_propagates_witness:
  "\<exists>s'. full_validation_cycle example_env
          (empty_state\<lparr>backups := [(''a.bak'', File ''x''), (''dir'', Unreadable),
                                   (''c.bak'', File ''y'')]\<rparr>) = (Inl OSError, s')
        \<and> integrity_status s' ''a.bak'' \<noteq> None
        \<and> integrity_status s' ''c.bak'' = None"
proof -
  let ?s = "empty_state\<lparr>backups := [(''a.bak'', File ''x''), (''dir'', Unreadable),
                                   (''c.bak'', File ''y'')]\<rparr>"
  let ?pre = "[(''a.bak'', File ''x'')]"
  let ?rest = "[(''dir'', Unreadable), (''c.bak'', File ''y'')]"
  have d: "distinct (map fst (backups ?s))" by simp
  have h: "hash_db ?s \<noteq> Undecodable" by (simp add: empty_state_def)
  have b: "backups ?s = ?pre @ ?rest" by simp
  have p: "\<forall>nd \<in> snd ` set ?pre. nd \<noteq> Unreadable" by simp
  have r: "?rest = [] \<or> (\<exists>a post. ?rest = (a, Unreadable) # post)" by simp
  from full_validation_cycle_read_failure_propagates [OF d h b p r, of example_env]
  obtain s' where
    c: "full_validation_cycle example_env ?s =
          (if ?rest = [] then Inr (integrity_status s') else Inl OSError, s')"
    and s1: "\<forall>n \<in> fst ` set ?pre. integrity_status s' n \<noteq> None"
    and s2: "\<forall>n. n \<notin> fst ` set ?pre \<longrightarrow> integrity_status s' n = integrity_status ?s n"
    by (elim exE conjE)
  from c have c': "full_validation_cycle example_env ?s = (Inl OSError, s')" by simp
  from s1 have a: "integrity_status s' ''a.bak'' \<noteq> None" by simp
  from s2 [rule_format, of "''c.bak''"]
  have "integrity_status s' ''c.bak'' = integrity_status ?s ''c.bak''" by simp
  then have n: "integrity_status s' ''c.bak'' = None" by (simp add: empty_state_def)
  from c' a n show ?thesis by (intro exI [of _ s'] conjI)
qed

text \<open>
  The claim as stated fails: with an unreadable node listed before a readable file, the
  cycle raises, records no failed status for the node and no status for the file.
\<close>

theorem full_validation_cycle_aborts_counterexample:
  "fst (full_validation_cycle example_env
          (empty_state\<lparr>backups := [(''dir'', Unreadable), (''b.bak'', File ''data'')]\<rparr>))
     = Inl OSError
   \<and> integrity_status (snd (full_validation_cycle example_env
          (empty_state\<lparr>backups := [(''dir'', Unreadable), (''b.bak'', File ''data'')]\<rparr>)))
       ''dir'' = None
   \<and> integrity_status (snd (full_validation_cycle example_env
          (empty_state\<lparr>backups := [(''dir'', Unreadable), (''b.bak'', File ''data'')]\<rparr>)))
       ''b.bak'' = None"
  by (simp add: full_validation_cycle_def verify_backup_def path_exists_def calculate_hash_def
      empty_state_def)

section \<open>Properties of the restoration\<close>

text \<open>
  Claim C5. When \<^verbatim>\<open>verify_backup\<close> on the artifact returns
  \<^verbatim>\<open>(False, "Backup no encontrado")\<close> (NotFound) or \<^verbatim>\<open>(False, "Hash no coincide")\<close>
  (Mismatch), \<^verbatim>\<open>restore_service\<close> returns the failure \<^verbatim>\<open>(False, "Backup inv(a)lido")\<close>
  and the only change of the state is the line it printed: the production store is what
  it was before the call.
\<close>

theorem restore_service_invalid_backup_no_write:
  assumes "fst (verify_backup e a s) = Inr (False, Backup_no_encontrado)
           \<or> fst (verify_backup e a s) = Inr (False, Hash_no_coincide)"
  shows "restore_service e service a partial s =
           (Inr (False, Backup_invalido), s\<lparr>stdout := stdout s @ [Rest_start service partial]\<rparr>)
         \<and> production (snd (restore_service e service a partial s)) = production s"
  using assms
  by (auto simp add: restore_service_def verify_backup_def path_exists_def calculate_hash_def
      load_known_hashes_def split: option.splits node.splits ledger_file.splits if_splits)

theorem restore_service_invalid_backup_no_write_witness:
  "restore_service example_env ''servicio_db'' ''a.bak'' True
     (empty_state\<lparr>backups := [(''a.bak'', File ''tampered'')],
                  hash_db := Json [''a.bak'' \<mapsto> ''sha:original''],
                  production := [''servicio_db'' \<mapsto> [''partial_restore'' \<mapsto> ''old'']]\<rparr>)
   = (Inr (False, Backup_invalido),
      empty_state\<lparr>backups := [(''a.bak'', File ''tampered'')],
                  hash_db := Json [''a.bak'' \<mapsto> ''sha:original''],
                  production := [''servicio_db'' \<mapsto> [''partial_restore'' \<mapsto> ''old'']],
                  stdout := [Rest_start ''servicio_db'' True]\<rparr>)"
proof -
  let ?s = "empty_state\<lparr>backups := [(''a.bak'', File ''tampered'')],
                  hash_db := Json [''a.bak'' \<mapsto> ''sha:original''],
                  production := [''servicio_db'' \<mapsto> [''partial_restore'' \<mapsto> ''old'']]\<rparr>"
  have h: "fst (verify_backup example_env ''a.bak'' ?s) = Inr (False, Backup_no_encontrado)
           \<or> fst (verify_backup example_env ''a.bak'' ?s) = Inr (False, Hash_no_coincide)"
    by (simp add: verify_backup_def path_exists_def calculate_hash_def load_known_hashes_def
        example_env_def empty_state_def)
  show ?thesis
    using restore_service_invalid_backup_no_write [OF h, of "''servicio_db''" True]
    by (simp add: empty_state_def)
qed

text \<open>
  What \<^verbatim>\<open>verify_backup\<close> leaves alone, and that its outcome does not depend on what
  has been printed.
\<close>

lemma verify_backup_frame:
  "backups (snd (verify_backup e a s)) = backups s"
  "production (snd (verify_backup e a s)) = production s"
  "copy_fault (snd (verify_backup e a s)) = copy_fault s"
  "current_demands (snd (verify_backup e a s)) = current_demands s"
  "stdout (snd (verify_backup e a s)) = stdout s"
  by (simp_all add: verify_backup_def split: sum.splits option.splits)

lemma verify_backup_stdout_indep:
  "fst (verify_backup e a (s\<lparr>stdout := x\<rparr>)) = fst (verify_backup e a s)"
  by (simp add: verify_backup_def path_exists_def calculate_hash_def load_known_hashes_def
      split: sum.splits option.splits node.splits ledger_file.splits)

text \<open>
  Claim C4 (as amended). \<^verbatim>\<open>restore_service\<close> has no temporary location and no
  rename: once the pre-check has passed it copies the artifact straight onto
  \<^verbatim>\<open>partial_restore\<close> or \<^verbatim>\<open>full_restore\<close> in the service's directory. When the
  copy completes, the result is \<^verbatim>\<open>(True, "Restauraci(o)n exitosa")\<close> and that file
  holds the artifact's bytes; when the copy fails after \<open>k\<close> bytes, the result is the
  failure with the text of the exception and that file holds the first \<open>k\<close> bytes of the
  artifact. No other file and no other service directory changes.
\<close>

theorem restore_service_copies_in_place:
  assumes "fst (verify_backup e a s) = Inr (True, vm)"
      and "map_of (backups s) a = Some (File b)"
  shows "(let files = (case production s service of None \<Rightarrow> Map.empty | Some f \<Rightarrow> f);
              dest = (if partial then ''partial_restore'' else ''full_restore'');
              r = restore_service e service a partial s
          in case copy_fault s service of
               None \<Rightarrow>
                 fst r = Inr (True, Restauracion_exitosa)
                 \<and> production (snd r) = (production s)(service \<mapsto> files(dest \<mapsto> b))
             | Some k \<Rightarrow>
                 fst r = Inr (False, Exc_str OSError)
                 \<and> production (snd r) = (production s)(service \<mapsto> files(dest \<mapsto> take k b)))"
proof -
  let ?s0 = "s\<lparr>stdout := stdout s @ [Rest_start service partial]\<rparr>"
  have "fst (verify_backup e a ?s0) = Inr (True, vm)"
    using assms(1) by (simp only: verify_backup_stdout_indep)
  then obtain s1 where v: "verify_backup e a ?s0 = (Inr (True, vm), s1)"
    by (cases "verify_backup e a ?s0") simp
  have f: "backups s1 = backups s" "production s1 = production s"
          "copy_fault s1 = copy_fault s"
    using verify_backup_frame(1-3) [of e a ?s0] v by simp_all
  show ?thesis
    using v f assms(2)
    by (simp add: restore_service_def shutil_copy_def makedirs_if_missing_def Let_def
        split: option.splits)
qed

theorem restore_service_copies_in_place_witness:
  "fst (restore_service example_env ''servicio_db'' ''a.bak'' False
     (empty_state\<lparr>backups := [(''a.bak'', File ''NEWDATA'')],
                  production := [''servicio_db'' \<mapsto> [''full_restore'' \<mapsto> ''OLDDATA'']]\<rparr>))
     = Inr (True, Restauracion_exitosa)
   \<and> production (snd (restore_service example_env ''servicio_db'' ''a.bak'' False
     (empty_state\<lparr>backups := [(''a.bak'', File ''NEWDATA'')],
                  production := [''servicio_db'' \<mapsto> [''full_restore'' \<mapsto> ''OLDDATA'']]\<rparr>)))
     = [''servicio_db'' \<mapsto> [''full_restore'' \<mapsto> ''NEWDATA'']]"
proof -
  let ?s = "empty_state\<lparr>backups := [(''a.bak'', File ''NEWDATA'')],
                  production := [''servicio_db'' \<mapsto> [''full_restore'' \<mapsto> ''OLDDATA'']]\<rparr>"
  have h1: "fst (verify_backup example_env ''a.bak'' ?s) = Inr (True, Nuevo_backup_registrado)"
    by (simp add: verify_backup_def path_exists_def calculate_hash_def load_known_hashes_def
        empty_state_def)
  have h2: "map_of (backups ?s) ''a.bak'' = Some (File ''NEWDATA'')" by simp
  have c: "copy_fault ?s ''servicio_db'' = None" by (simp add: empty_state_def)
  have p: "production ?s = [''servicio_db'' \<mapsto> [''full_restore'' \<mapsto> ''OLDDATA'']]" by simp
  from restore_service_copies_in_place [OF h1 h2, of "''servicio_db''" False]
  show ?thesis unfolding Let_def c p by simp
qed

text \<open>
  The claim as stated fails: a copy that breaks after three bytes leaves the visible
  target \<^verbatim>\<open>full_restore\<close> with \<open>''NEW''\<close>, which is neither its old content nor
  the artifact.
\<close>

theorem restore_service_partial_write_counterexample:
  "fst (verify_backup example_env ''a.bak''
     (empty_state\<lparr>backups := [(''a.bak'', File ''NEWDATA'')],
                  production := [''servicio_db'' \<mapsto> [''full_restore'' \<mapsto> ''OLDDATA'']],
                  copy_fault := [''servicio_db'' \<mapsto> 3]\<rparr>)) = Inr (True, Nuevo_backup_registrado)
   \<and> restore_service example_env ''servicio_db'' ''a.bak'' False
     (empty_state\<lparr>backups := [(''a.bak'', File ''NEWDATA'')],
                  production := [''servicio_db'' \<mapsto> [''full_restore'' \<mapsto> ''OLDDATA'']],
                  copy_fault := [''servicio_db'' \<mapsto> 3]\<rparr>)
   = (Inr (False, Exc_str OSError),
      empty_state\<lparr>backups := [(''a.bak'', File ''NEWDATA'')],
                  hash_db := Json [''a.bak'' \<mapsto> ''sha:NEWDATA''],
                  production := [''servicio_db'' \<mapsto> [''full_restore'' \<mapsto> ''NEW'']],
                  copy_fault := [''servicio_db'' \<mapsto> 3],
                  stdout := [Rest_start ''servicio_db'' False]\<rparr>)
   \<and> ''NEW'' \<noteq> ''OLDDATA'' \<and> ''NEW'' \<noteq> ''NEWDATA''"
  by (simp add: restore_service_def verify_backup_def path_exists_def calculate_hash_def
        load_known_hashes_def shutil_copy_def makedirs_if_missing_def empty_state_def
        example_env_def numeral_3_eq_3)

section \<open>Properties of the orchestration\<close>

text \<open>
  What one call of \<^verbatim>\<open>restore_service\<close> prints, and what a restore of a sound
  artifact with no copy fault does to the state.
\<close>

lemma restore_service_output:
  "stdout (snd (restore_service e service a partial s)) = stdout s @ [Rest_start service partial]"
  "current_demands (snd (restore_service e service a partial s)) = current_demands s"
proof -
  let ?s0 = "s\<lparr>stdout := stdout s @ [Rest_start service partial]\<rparr>"
  obtain r s1 where v: "verify_backup e a ?s0 = (r, s1)" by (cases "verify_backup e a ?s0")
  have f: "stdout s1 = stdout ?s0" "current_demands s1 = current_demands ?s0"
    using verify_backup_frame(4,5) [of e a ?s0] v by simp_all
  show "stdout (snd (restore_service e service a partial s)) = stdout s @ [Rest_start service partial]"
    using v f
    by (simp add: restore_service_def shutil_copy_def makedirs_if_missing_def Let_def
        split: sum.splits option.splits node.splits)
  show "current_demands (snd (restore_service e service a partial s)) = current_demands s"
    using v f
    by (simp add: restore_service_def shutil_copy_def makedirs_if_missing_def Let_def
        split: sum.splits option.splits node.splits)
qed

lemma restore_service_success:
  assumes "map_of (backups s) a = Some (File b)"
      and "load_known_hashes s = Inr m"
      and "m a = None \<or> m a = Some (sha256 e b)"
      and "copy_fault s service = None"
  shows "\<exists>s'. restore_service e service a partial s = (Inr (True, Restauracion_exitosa), s')
           \<and> stdout s' = stdout s @ [Rest_start service partial]
           \<and> backups s' = backups s \<and> copy_fault s' = copy_fault s
           \<and> current_demands s' = current_demands s
           \<and> load_known_hashes s' = Inr (m(a \<mapsto> sha256 e b))
           \<and> production s' =
                (production s)
                  (service \<mapsto>
                     (case production s service of None \<Rightarrow> Map.empty | Some f \<Rightarrow> f)
                       ((if partial then ''partial_restore'' else ''full_restore'') \<mapsto> b))"
proof -
  let ?s0 = "s\<lparr>stdout := stdout s @ [Rest_start service partial]\<rparr>"
  have l0: "load_known_hashes ?s0 = Inr m" using assms(2) by (simp add: load_known_hashes_def)
  from assms(3) obtain vm s1 where v: "verify_backup e a ?s0 = (Inr (True, vm), s1)"
    and l1: "load_known_hashes s1 = Inr (m(a \<mapsto> sha256 e b))"
  proof
    assume n: "m a = None"
    have "verify_backup e a ?s0 =
            (Inr (True, Nuevo_backup_registrado),
             ?s0\<lparr>hash_db := Json (m(a \<mapsto> sha256 e b))\<rparr>)"
      using assms(1) l0 n by (simp add: verify_backup_def path_exists_def calculate_hash_def)
    moreover have "load_known_hashes (?s0\<lparr>hash_db := Json (m(a \<mapsto> sha256 e b))\<rparr>)
                     = Inr (m(a \<mapsto> sha256 e b))"
      by (simp add: load_known_hashes_def)
    ultimately show ?thesis using that by blast
  next
    assume k: "m a = Some (sha256 e b)"
    have "verify_backup e a ?s0 = (Inr (True, Integridad_verificada), ?s0)"
      using assms(1) l0 k by (simp add: verify_backup_def path_exists_def calculate_hash_def)
    moreover have "m(a \<mapsto> sha256 e b) = m" using k by (rule map_upd_triv)
    ultimately show ?thesis using that l0 by simp
  qed
  have f: "backups s1 = backups s" "production s1 = production s"
          "copy_fault s1 = copy_fault s" "current_demands s1 = current_demands s"
          "stdout s1 = stdout ?s0"
    using verify_backup_frame [of e a ?s0] v by simp_all
  have h: "hash_db (makedirs_if_missing service s1) = hash_db s1"
    by (simp add: makedirs_if_missing_def)
  show ?thesis
    using v f l1 assms(1,4)
    by (cases "production s service")
       (simp_all add: restore_service_def shutil_copy_def makedirs_if_missing_def Let_def
          load_known_hashes_def)
qed

text \<open>
  Every restoration that the loop of \<^verbatim>\<open>orchestrate_restorations\<close> starts is printed
  with the mode that line 185 computes from the demand sample and the threshold.
\<close>

lemma restoration_loop_output:
  "\<exists>evs. stdout (snd (restoration_loop e cfg svcs results s)) = stdout s @ evs
     \<and> (\<forall>svc p. Rest_start svc p \<in> set evs \<longrightarrow>
           (\<exists>data. map_of (critical_services cfg) svc = Some data
              \<and> p = (get0 (current_demands s) svc < demand_threshold data * (3 / 2))))"
proof (induction svcs arbitrary: results s)
  case Nil
  show ?case by simp
next
  case (Cons service rest)
  show ?case
  proof (cases "map_of (critical_services cfg) service")
    case None
    then show ?thesis by simp
  next
    case (Some data)
    let ?p = "get0 (current_demands s) service < demand_threshold data * (3 / 2)"
    let ?r = "restore_service e service (backup_name e service) ?p s"
    have o: "stdout (snd ?r) = stdout s @ [Rest_start service ?p]"
      and d: "current_demands (snd ?r) = current_demands s"
      by (rule restore_service_output)+
    obtain x s1 where r: "?r = (x, s1)" by (cases ?r)
    have o1: "stdout s1 = stdout s @ [Rest_start service ?p]" using o r by simp
    have d1: "current_demands s1 = current_demands s" using d r by simp
    let ?ok = "\<lambda>evs. \<forall>svc p. Rest_start svc p \<in> set evs \<longrightarrow>
           (\<exists>data. map_of (critical_services cfg) svc = Some data
              \<and> p = (get0 (current_demands s) svc < demand_threshold data * (3 / 2)))"
    have one: "?ok [Rest_start service ?p]" using Some by simp
    show ?thesis
    proof (cases x)
      case (Inl ex)
      then have "snd (restoration_loop e cfg (service # rest) results s) = s1"
        using Some r by (simp add: Let_def)
      then show ?thesis using o1 one by (intro exI [of _ "[Rest_start service ?p]"]) simp
    next
      case (Inr sm)
      obtain success m where sm: "sm = (success, m)" by (cases sm)
      show ?thesis
      proof (cases "success \<and> get0 (current_demands s) service < demand_threshold data")
        case True
        then have "snd (restoration_loop e cfg (service # rest) results s) = s1"
          using Some r Inr sm by (simp add: Let_def)
        then show ?thesis using o1 one by (intro exI [of _ "[Rest_start service ?p]"]) simp
      next
        case False
        then have l: "restoration_loop e cfg (service # rest) results s =
                        restoration_loop e cfg rest (results(service \<mapsto> (success, m))) s1"
          using Some r Inr sm by (auto simp add: Let_def)
        from Cons.IH [of "results(service \<mapsto> (success, m))" s1]
        obtain evs where
          e1: "stdout (snd (restoration_loop e cfg rest (results(service \<mapsto> (success, m))) s1))
                 = stdout s1 @ evs"
          and e2: "?ok evs"
          unfolding d1 by blast
        have "stdout (snd (restoration_loop e cfg (service # rest) results s))
                = stdout s @ (Rest_start service ?p # evs)"
          using l e1 o1 by simp
        moreover have "?ok (Rest_start service ?p # evs)" using one e2 by auto
        ultimately show ?thesis by blast
      qed
    qed
  qed
qed

lemma prioritize_services_frame:
  "stdout (snd (prioritize_services e cfg s)) = stdout s"
  "current_demands (snd (prioritize_services e cfg s)) = demand_source e"
  by (simp_all add: prioritize_services_def evaluate_demands_def split: sum.splits)

text \<open>
  Claim C6. Whenever \<^verbatim>\<open>orchestrate_restorations\<close> starts the restoration of a
  service, the service is in the registry with some threshold \<open>T\<close>, and the mode is
  partial exactly when the sampled demand is strictly below \<open>1.5 * T\<close>, full otherwise.
  In particular a demand of \<open>1.49 * T\<close> gives partial (for a positive threshold, as
  the data model has it) and a demand of exactly \<open>1.5 * T\<close> gives full.
\<close>

theorem orchestrate_restorations_mode_boundary:
  assumes "Rest_start service partial \<in>
             set (drop (length (stdout s)) (stdout (snd (orchestrate_restorations e cfg s))))"
  shows "\<exists>data. map_of (critical_services cfg) service = Some data
           \<and> (partial \<longleftrightarrow> get0 (demand_source e) service < demand_threshold data * (3 / 2))
           \<and> (0 < demand_threshold data
                \<and> get0 (demand_source e) service = (149 / 100) * demand_threshold data
                \<longrightarrow> partial)
           \<and> (get0 (demand_source e) service = (3 / 2) * demand_threshold data
                \<longrightarrow> \<not> partial)"
proof -
  let ?s0 = "s\<lparr>stdout := stdout s @ [Orq_eval]\<rparr>"
  obtain x s1 where p: "prioritize_services e cfg ?s0 = (x, s1)"
    by (cases "prioritize_services e cfg ?s0")
  have o1: "stdout s1 = stdout s @ [Orq_eval]" and d1: "current_demands s1 = demand_source e"
    using prioritize_services_frame [of e cfg ?s0] p by simp_all
  have "\<exists>data. map_of (critical_services cfg) service = Some data
           \<and> partial = (get0 (demand_source e) service < demand_threshold data * (3 / 2))"
  proof (cases x)
    case (Inl ex)
    then have "stdout (snd (orchestrate_restorations e cfg s)) = stdout s @ [Orq_eval]"
      using p o1 by (simp add: orchestrate_restorations_def)
    with assms show ?thesis by simp
  next
    case (Inr prioritized)
    let ?s2 = "s1\<lparr>stdout := stdout s1 @ [Orq_order prioritized]\<rparr>"
    from restoration_loop_output [of e cfg prioritized Map.empty ?s2]
    obtain evs where
      e1: "stdout (snd (restoration_loop e cfg prioritized Map.empty ?s2)) = stdout ?s2 @ evs"
      and e2: "\<forall>svc p. Rest_start svc p \<in> set evs \<longrightarrow>
           (\<exists>data. map_of (critical_services cfg) svc = Some data
              \<and> p = (get0 (current_demands ?s2) svc < demand_threshold data * (3 / 2)))"
      by blast
    obtain y s3 where l: "restoration_loop e cfg prioritized Map.empty ?s2 = (y, s3)"
      by (cases "restoration_loop e cfg prioritized Map.empty ?s2")
    have o3: "stdout s3 = stdout s @ [Orq_eval, Orq_order prioritized] @ evs"
      using e1 l o1 by simp
    have "\<exists>tl. stdout (snd (orchestrate_restorations e cfg s)) =
            stdout s @ [Orq_eval, Orq_order prioritized] @ evs @ tl \<and> set tl \<subseteq> {Orq_done}"
      using p Inr l o3 by (cases y) (simp_all add: orchestrate_restorations_def)
    then obtain tl where
      t: "stdout (snd (orchestrate_restorations e cfg s)) =
            stdout s @ [Orq_eval, Orq_order prioritized] @ evs @ tl"
      and tl: "set tl \<subseteq> {Orq_done}" by blast
    from assms t tl have "Rest_start service partial \<in> set evs" by auto
    with e2 d1 show ?thesis by simp
  qed
  then obtain data where
    m: "map_of (critical_services cfg) service = Some data"
    and b: "partial = (get0 (demand_source e) service < demand_threshold data * (3 / 2))"
    by blast
  have "0 < demand_threshold data
          \<and> get0 (demand_source e) service = (149 / 100) * demand_threshold data \<longrightarrow> partial"
    using b by auto
  moreover have "get0 (demand_source e) service = (3 / 2) * demand_threshold data
                   \<longrightarrow> \<not> partial"
    using b by (simp add: mult.commute)
  ultimately show ?thesis using m b by blast
qed

theorem orchestrate_restorations_mode_boundary_witness:
  "Rest_start ''servicio_db'' False \<in>
     set (drop (length (stdout empty_state))
            (stdout (snd (orchestrate_restorations example_env
                            \<lparr>critical_services = default_services\<rparr> empty_state))))
   \<and> map_of default_services ''servicio_db'' = Some \<lparr>priority = 1, demand_threshold = 100\<rparr>
   \<and> get0 (demand_source example_env) ''servicio_db'' = (3 / 2) * 100"
proof -
  have h: "Rest_start ''servicio_db'' False \<in>
     set (drop (length (stdout empty_state))
            (stdout (snd (orchestrate_restorations example_env
                            \<lparr>critical_services = default_services\<rparr> empty_state))))"
    by (simp add: orchestrate_restorations_def prioritize_services_def evaluate_demands_def
        effective_priority_def get0_def simulated_demands_def default_services_def
        restore_service_def verify_backup_def path_exists_def backup_name_def
        example_env_def empty_state_def Let_def)
  from orchestrate_restorations_mode_boundary [OF h]
  show ?thesis using h
    by (simp add: default_services_def get0_def example_env_def simulated_demands_def)
qed

text \<open>
  Claim C10. For a service of the registry that the demand sample does not mention, the
  current demand is 0: the demand ratio is floored to \<open>1/10\<close> and the effective priority
  is ten times the static priority. With a positive threshold the mode chosen for it is
  partial, and when its restore succeeds the loop stops at once: the result table gains
  the entry of this service only and the state is the one its restore left, so the
  services that remain are not touched in this run.
\<close>

theorem restoration_loop_absent_demand:
  assumes "demand_source e service = None"
      and "map_of (critical_services cfg) service = Some data"
      and "0 < demand_threshold data"
      and "current_demands s = demand_source e"
      and "restore_service e service (backup_name e service) True s = (Inr (True, m), s1)"
  shows "get0 (demand_source e) service = 0
       \<and> max (1 / 10) (get0 (demand_source e) service / demand_threshold data) = 1 / 10
       \<and> effective_priority (demand_source e) service data = Inr (10 * priority data)
       \<and> get0 (current_demands s) service < demand_threshold data * (3 / 2)
       \<and> restoration_loop e cfg (service # rest) results s =
           (Inr (results(service \<mapsto> (True, m))), s1)
       \<and> stdout s1 = stdout s @ [Rest_start service True]"
proof -
  have z: "get0 (demand_source e) service = 0" using assms(1) by (simp add: get0_def)
  have p: "effective_priority (demand_source e) service data = Inr (10 * priority data)"
    using z assms(3) by (simp add: effective_priority_def Let_def)
  have f: "get0 (current_demands s) service < demand_threshold data * (3 / 2)"
    using z assms(3,4) by simp
  have b: "get0 (current_demands s) service < demand_threshold data"
    using z assms(3,4) by simp
  have l: "restoration_loop e cfg (service # rest) results s =
             (Inr (results(service \<mapsto> (True, m))), s1)"
    using assms(2,5) f b by (simp add: Let_def)
  have o: "stdout s1 = stdout s @ [Rest_start service True]"
    using restore_service_output(1) [of e service "backup_name e service" True s] assms(5)
    by simp
  have r: "max (1 / 10) (get0 (demand_source e) service / demand_threshold data) = 1 / 10"
    using z by simp
  from z r p f l o show ?thesis by simp
qed

theorem restoration_loop_absent_demand_witness:
  "effective_priority (demand_source example_env) ''servicio_cache''
       \<lparr>priority = 2, demand_threshold = 40\<rparr> = Inr 20
   \<and> fst (restoration_loop example_env
            \<lparr>critical_services =
               [(''servicio_cache'', \<lparr>priority = 2, demand_threshold = 40\<rparr>),
                (''servicio_web'', \<lparr>priority = 3, demand_threshold = 50\<rparr>)]\<rparr>
            [''servicio_cache'', ''servicio_web''] Map.empty
            (empty_state\<lparr>backups := [(''servicio_cache_backup_20240101.bak'', File ''data'')],
                         current_demands := simulated_demands\<rparr>))
       = Inr [''servicio_cache'' \<mapsto> (True, Restauracion_exitosa)]"
proof -
  let ?cfg = "\<lparr>critical_services =
               [(''servicio_cache'', \<lparr>priority = 2, demand_threshold = 40\<rparr>),
                (''servicio_web'', \<lparr>priority = 3, demand_threshold = 50\<rparr>)]\<rparr>"
  let ?s = "empty_state\<lparr>backups := [(''servicio_cache_backup_20240101.bak'', File ''data'')],
                         current_demands := simulated_demands\<rparr>"
  let ?data = "\<lparr>priority = 2, demand_threshold = 40\<rparr> :: service_data"
  have a1: "demand_source example_env ''servicio_cache'' = None"
    by (simp add: example_env_def simulated_demands_def)
  have a2: "map_of (critical_services ?cfg) ''servicio_cache'' = Some ?data" by simp
  have a3: "0 < demand_threshold ?data" by simp
  have a4: "current_demands ?s = demand_source example_env" by (simp add: example_env_def)
  have b1: "map_of (backups ?s) (backup_name example_env ''servicio_cache'') = Some (File ''data'')"
    by (simp add: backup_name_def example_env_def)
  have b2: "load_known_hashes ?s = Inr Map.empty"
    by (simp add: load_known_hashes_def empty_state_def)
  have b3: "Map.empty (backup_name example_env ''servicio_cache'') = None
            \<or> Map.empty (backup_name example_env ''servicio_cache'')
                = Some (sha256 example_env ''data'')"
    by simp
  have b4: "copy_fault ?s ''servicio_cache'' = None" by (simp add: empty_state_def)
  from restore_service_success [OF b1 b2 b3 b4, of True]
  obtain s1 where
    a5: "restore_service example_env ''servicio_cache''
           (backup_name example_env ''servicio_cache'') True ?s
         = (Inr (True, Restauracion_exitosa), s1)"
    by blast
  note t = restoration_loop_absent_demand [OF a1 a2 a3 a4 a5, of "[''servicio_web'']" Map.empty]
  have p: "effective_priority (demand_source example_env) ''servicio_cache'' ?data = Inr 20"
    using t [THEN conjunct2, THEN conjunct2, THEN conjunct1] by simp
  have l: "fst (restoration_loop example_env ?cfg [''servicio_cache'', ''servicio_web'']
                  Map.empty ?s)
             = Inr [''servicio_cache'' \<mapsto> (True, Restauracion_exitosa)]"
    using t [THEN conjunct2, THEN conjunct2, THEN conjunct2, THEN conjunct2, THEN conjunct1]
    by (simp only: fst_conv)
  from p l show ?thesis by (rule conjI)
qed

text \<open>
  The default registry with the simulated sample: the priorities are \<open>2/3\<close>, \<open>32/13\<close>
  and \<open>5\<close>, so the order is db, api, web.
\<close>

lemma default_priority_order:
  assumes "critical_services cfg = load_critical_services None"
      and "demand_source e = simulated_demands"
  shows "prioritize_services e cfg s =
           (Inr [''servicio_db'', ''servicio_api'', ''servicio_web''],
            s\<lparr>current_demands := simulated_demands\<rparr>)"
  using assms
  by (simp add: prioritize_services_def evaluate_demands_def load_critical_services_def
      default_services_def effective_priority_def get0_def simulated_demands_def Let_def)

text \<open>
  Claim C1. With the built-in default registry and the demand sample
  \<open>db = 150, api = 65, web = 30\<close>, and with the backups of \<^verbatim>\<open>servicio_db\<close> and
  \<^verbatim>\<open>servicio_api\<close> present, sound and copied without fault (each attempted restore
  succeeds), \<^verbatim>\<open>orchestrate_restorations\<close> computes the order db, api, web, restores
  \<^verbatim>\<open>servicio_db\<close> (in full mode; 150 is not below 100, the run goes on), restores
  \<^verbatim>\<open>servicio_api\<close> (in partial mode) and stops there because 65 is below 80:
  the result table has the two entries and none for \<^verbatim>\<open>servicio_web\<close>, whose
  restoration is not started and whose production directory is untouched.
\<close>

theorem orchestrate_default_scenario:
  assumes cfg: "critical_services cfg = load_critical_services None"
      and dem: "demand_source e = simulated_demands"
      and db: "map_of (backups s) (backup_name e ''servicio_db'') = Some (File b_db)"
      and api: "map_of (backups s) (backup_name e ''servicio_api'') = Some (File b_api)"
      and led: "load_known_hashes s = Inr m"
      and mdb: "m (backup_name e ''servicio_db'') = None
                \<or> m (backup_name e ''servicio_db'') = Some (sha256 e b_db)"
      and mapi: "m (backup_name e ''servicio_api'') = None
                 \<or> m (backup_name e ''servicio_api'') = Some (sha256 e b_api)"
      and fdb: "copy_fault s ''servicio_db'' = None"
      and fapi: "copy_fault s ''servicio_api'' = None"
  shows "fst (prioritize_services e cfg s) = Inr [''servicio_db'', ''servicio_api'', ''servicio_web'']
       \<and> (\<exists>s'. orchestrate_restorations e cfg s =
                  (Inr [''servicio_db'' \<mapsto> (True, Restauracion_exitosa),
                        ''servicio_api'' \<mapsto> (True, Restauracion_exitosa)], s')
              \<and> stdout s' = stdout s @
                   [Orq_eval, Orq_order [''servicio_db'', ''servicio_api'', ''servicio_web''],
                    Rest_start ''servicio_db'' False, Rest_start ''servicio_api'' True, Orq_done]
              \<and> production s' ''servicio_web'' = production s ''servicio_web'')"
proof -
  let ?order = "[''servicio_db'', ''servicio_api'', ''servicio_web'']"
  let ?s2 = "s\<lparr>stdout := stdout s @ [Orq_eval], current_demands := simulated_demands,
               stdout := stdout s @ [Orq_eval] @ [Orq_order ?order]\<rparr>"
  have ne: "backup_name e ''servicio_db'' \<noteq> backup_name e ''servicio_api''"
    by (simp add: backup_name_def)
  have rdb: "map_of (critical_services cfg) ''servicio_db''
               = Some \<lparr>priority = 1, demand_threshold = 100\<rparr>"
    and rapi: "map_of (critical_services cfg) ''servicio_api''
               = Some \<lparr>priority = 2, demand_threshold = 80\<rparr>"
    using cfg by (simp_all add: load_critical_services_def default_services_def)
  have ddb: "get0 simulated_demands ''servicio_db'' = 150"
    and dapi: "get0 simulated_demands ''servicio_api'' = 65"
    by (simp_all add: get0_def simulated_demands_def)
  have l2: "load_known_hashes ?s2 = Inr m" using led by (simp add: load_known_hashes_def)
  from restore_service_success [of ?s2 "backup_name e ''servicio_db''" b_db m e
                                    "''servicio_db''" False]
  obtain s3 where
    r3: "restore_service e ''servicio_db'' (backup_name e ''servicio_db'') False ?s2
           = (Inr (True, Restauracion_exitosa), s3)"
    and o3: "stdout s3 = stdout ?s2 @ [Rest_start ''servicio_db'' False]"
    and b3: "backups s3 = backups ?s2" and f3: "copy_fault s3 = copy_fault ?s2"
    and d3: "current_demands s3 = current_demands ?s2"
    and l3: "load_known_hashes s3 = Inr (m(backup_name e ''servicio_db'' \<mapsto> sha256 e b_db))"
    and p3: "production s3 =
               (production ?s2)
                 (''servicio_db'' \<mapsto>
                    (case production ?s2 ''servicio_db'' of None \<Rightarrow> Map.empty | Some f \<Rightarrow> f)
                      ((if False then ''partial_restore'' else ''full_restore'') \<mapsto> b_db))"
    using db l2 mdb fdb by auto
  let ?m3 = "m(backup_name e ''servicio_db'' \<mapsto> sha256 e b_db)"
  have api3: "map_of (backups s3) (backup_name e ''servicio_api'') = Some (File b_api)"
    using api b3 by simp
  have mapi3: "?m3 (backup_name e ''servicio_api'') = None
               \<or> ?m3 (backup_name e ''servicio_api'') = Some (sha256 e b_api)"
    using mapi ne by simp
  have fapi3: "copy_fault s3 ''servicio_api'' = None" using fapi f3 by simp
  from restore_service_success [OF api3 l3 mapi3 fapi3, of True]
  obtain s4 where
    r4: "restore_service e ''servicio_api'' (backup_name e ''servicio_api'') True s3
           = (Inr (True, Restauracion_exitosa), s4)"
    and o4: "stdout s4 = stdout s3 @ [Rest_start ''servicio_api'' True]"
    and p4: "production s4 =
               (production s3)
                 (''servicio_api'' \<mapsto>
                    (case production s3 ''servicio_api'' of None \<Rightarrow> Map.empty | Some f \<Rightarrow> f)
                      ((if True then ''partial_restore'' else ''full_restore'') \<mapsto> b_api))"
    by blast
  have c2: "current_demands ?s2 = simulated_demands" by simp
  have c3: "current_demands s3 = simulated_demands" using d3 by simp
  have step2: "restoration_loop e cfg [''servicio_api'', ''servicio_web'']
                 [''servicio_db'' \<mapsto> (True, Restauracion_exitosa)] s3
               = (Inr [''servicio_db'' \<mapsto> (True, Restauracion_exitosa),
                       ''servicio_api'' \<mapsto> (True, Restauracion_exitosa)], s4)"
    using rapi c3 dapi r4 by (simp add: Let_def)
  have step1: "restoration_loop e cfg ?order Map.empty ?s2
               = (Inr [''servicio_db'' \<mapsto> (True, Restauracion_exitosa),
                       ''servicio_api'' \<mapsto> (True, Restauracion_exitosa)], s4)"
    using rdb c2 ddb r3 step2 by (simp add: Let_def)
  have pr: "prioritize_services e cfg (s\<lparr>stdout := stdout s @ [Orq_eval]\<rparr>) =
              (Inr ?order, s\<lparr>stdout := stdout s @ [Orq_eval],
                              current_demands := simulated_demands\<rparr>)"
    by (rule default_priority_order [OF cfg dem])
  have run: "orchestrate_restorations e cfg s =
               (Inr [''servicio_db'' \<mapsto> (True, Restauracion_exitosa),
                     ''servicio_api'' \<mapsto> (True, Restauracion_exitosa)],
                s4\<lparr>stdout := stdout s4 @ [Orq_done]\<rparr>)"
    using pr step1 by (simp add: orchestrate_restorations_def)
  have out: "stdout (s4\<lparr>stdout := stdout s4 @ [Orq_done]\<rparr>) = stdout s @
                   [Orq_eval, Orq_order ?order,
                    Rest_start ''servicio_db'' False, Rest_start ''servicio_api'' True, Orq_done]"
    using o3 o4 by simp
  have web: "production (s4\<lparr>stdout := stdout s4 @ [Orq_done]\<rparr>) ''servicio_web''
               = production s ''servicio_web''"
    using p3 p4 by simp
  have "fst (prioritize_services e cfg s) = Inr ?order"
    by (simp add: default_priority_order [OF cfg dem])
  with run out web show ?thesis by blast
qed

theorem orchestrate_default_scenario_witness:
  "fst (orchestrate_restorations example_env
          \<lparr>critical_services = load_critical_services None\<rparr>
          (empty_state\<lparr>backups := [(''servicio_db_backup_20240101.bak'', File ''db''),
                                   (''servicio_api_backup_20240101.bak'', File ''api''),
                                   (''servicio_web_backup_20240101.bak'', File ''web'')]\<rparr>))
     = Inr [''servicio_db'' \<mapsto> (True, Restauracion_exitosa),
            ''servicio_api'' \<mapsto> (True, Restauracion_exitosa)]
   \<and> stdout (snd (orchestrate_restorations example_env
          \<lparr>critical_services = load_critical_services None\<rparr>
          (empty_state\<lparr>backups := [(''servicio_db_backup_20240101.bak'', File ''db''),
                                   (''servicio_api_backup_20240101.bak'', File ''api''),
                                   (''servicio_web_backup_20240101.bak'', File ''web'')]\<rparr>)))
     = [Orq_eval, Orq_order [''servicio_db'', ''servicio_api'', ''servicio_web''],
        Rest_start ''servicio_db'' False, Rest_start ''servicio_api'' True, Orq_done]
   \<and> production (snd (orchestrate_restorations example_env
          \<lparr>critical_services = load_critical_services None\<rparr>
          (empty_state\<lparr>backups := [(''servicio_db_backup_20240101.bak'', File ''db''),
                                   (''servicio_api_backup_20240101.bak'', File ''api''),
                                   (''servicio_web_backup_20240101.bak'', File ''web'')]\<rparr>)))
       ''servicio_web'' = None"
proof -
  let ?cfg = "\<lparr>critical_services = load_critical_services None\<rparr>"
  let ?s = "empty_state\<lparr>backups := [(''servicio_db_backup_20240101.bak'', File ''db''),
                                   (''servicio_api_backup_20240101.bak'', File ''api''),
                                   (''servicio_web_backup_20240101.bak'', File ''web'')]\<rparr>"
  have cfg: "critical_services ?cfg = load_critical_services None" by simp
  have dem: "demand_source example_env = simulated_demands" by (simp add: example_env_def)
  have db: "map_of (backups ?s) (backup_name example_env ''servicio_db'') = Some (File ''db'')"
    by (simp add: backup_name_def example_env_def)
  have api: "map_of (backups ?s) (backup_name example_env ''servicio_api'') = Some (File ''api'')"
    by (simp add: backup_name_def example_env_def)
  have led: "load_known_hashes ?s = Inr Map.empty"
    by (simp add: load_known_hashes_def empty_state_def)
  have mdb: "Map.empty (backup_name example_env ''servicio_db'') = None
             \<or> Map.empty (backup_name example_env ''servicio_db'')
                 = Some (sha256 example_env ''db'')" by simp
  have mapi: "Map.empty (backup_name example_env ''servicio_api'') = None
             \<or> Map.empty (backup_name example_env ''servicio_api'')
                 = Some (sha256 example_env ''api'')" by simp
  have fdb: "copy_fault ?s ''servicio_db'' = None" by (simp add: empty_state_def)
  have fapi: "copy_fault ?s ''servicio_api'' = None" by (simp add: empty_state_def)
  from orchestrate_default_scenario [OF cfg dem db api led mdb mapi fdb fapi]
  obtain s' where
    run: "orchestrate_restorations example_env ?cfg ?s =
            (Inr [''servicio_db'' \<mapsto> (True, Restauracion_exitosa),
                  ''servicio_api'' \<mapsto> (True, Restauracion_exitosa)], s')"
    and out: "stdout s' = stdout ?s @
                   [Orq_eval, Orq_order [''servicio_db'', ''servicio_api'', ''servicio_web''],
                    Rest_start ''servicio_db'' False, Rest_start ''servicio_api'' True, Orq_done]"
    and web: "production s' ''servicio_web'' = production ?s ''servicio_web''"
    by blast
  have e1: "stdout ?s = []" by (simp add: empty_state_def)
  have e2: "production ?s ''servicio_web'' = None" by (simp add: empty_state_def)
  show ?thesis unfolding run fst_conv snd_conv out web e1 e2 by simp
qed

end
